theory Spec2Isabelle
  imports Main "HOL-Library.AList" "HOL-Library.Char_ord" "HOL-Library.List_Lexorder"
begin

section \<open>Python values\<close>

text \<open>
  The checks of \<^verbatim>\<open>anta/tests\<close> read the decoded JSON a device answers with. The values are
  Python objects: \<^verbatim>\<open>None\<close>, booleans, integers, strings, lists and dictionaries. A dictionary
  is an association list in insertion order (Python keeps it); a value stands for a Python
  object when the keys of each of its dictionaries are distinct. Floating point numbers are
  left out. A character is a code point below 256.
\<close>

datatype pyval =
    PNone
  | PBool bool
  | PInt int
  | PStr string
  | PList "pyval list"
  | PDict "(pyval \<times> pyval) list"

text \<open>
  The exceptions the checks can meet. \<open>AppError\<close> (a command the device rejects) and
  \<open>SocketTimeout\<close> carry the text \<^verbatim>\<open>str(e)\<close> gives; \<open>KeyError\<close> carries the missing key.
\<close>

datatype exn =
    AppError string
  | SocketTimeout string
  | KeyError pyval
  | TypeError
  | IndexError
  | AttributeError
  | ValueError
  | UnboundLocalError
  | AssertionError

text \<open>Sequencing of steps that may raise: the first exception ends the computation.\<close>

definition and_then :: "exn + 'a \<Rightarrow> ('a \<Rightarrow> exn + 'b) \<Rightarrow> exn + 'b" where
  "and_then m f = (case m of Inl e \<Rightarrow> Inl e | Inr x \<Rightarrow> f x)"

subsection \<open>Subscripts, iteration, length, truth\<close>

text \<open>\<^verbatim>\<open>xs[i]\<close> on a sequence: a negative index counts from the end.\<close>

definition seq_index :: "'a list \<Rightarrow> int \<Rightarrow> exn + 'a" where
  "seq_index xs i =
     (if 0 \<le> i \<and> i < int (length xs) then Inr (xs ! nat i)
      else if i < 0 \<and> - int (length xs) \<le> i then Inr (xs ! nat (int (length xs) + i))
      else Inl IndexError)"

text \<open>\<^verbatim>\<open>d[k]\<close> on a dictionary: lists and dictionaries are unhashable.\<close>

fun dict_get :: "(pyval \<times> pyval) list \<Rightarrow> pyval \<Rightarrow> exn + pyval" where
  "dict_get kvs (PList _) = Inl TypeError"
| "dict_get kvs (PDict _) = Inl TypeError"
| "dict_get kvs k = (case map_of kvs k of Some v \<Rightarrow> Inr v | None \<Rightarrow> Inl (KeyError k))"

text \<open>\<^verbatim>\<open>x[k]\<close> for any object and any key.\<close>

fun subscript :: "pyval \<Rightarrow> pyval \<Rightarrow> exn + pyval" where
  "subscript (PDict kvs) k = dict_get kvs k"
| "subscript (PList xs) (PInt i) = seq_index xs i"
| "subscript (PList xs) (PBool b) = seq_index xs (if b then 1 else 0)"
| "subscript (PStr s) (PInt i) = and_then (seq_index s i) (\<lambda>c. Inr (PStr [c]))"
| "subscript (PStr s) (PBool b) =
     and_then (seq_index s (if b then 1 else 0)) (\<lambda>c. Inr (PStr [c]))"
| "subscript _ _ = Inl TypeError"

text \<open>\<^verbatim>\<open>x["key"]\<close> with a string literal.\<close>

definition getitem :: "pyval \<Rightarrow> string \<Rightarrow> exn + pyval" where
  "getitem x k = subscript x (PStr k)"

text \<open>\<^verbatim>\<open>response[0]\<close> on the list \<^verbatim>\<open>runCmds\<close> returns.\<close>

definition first_response :: "pyval list \<Rightarrow> exn + pyval" where
  "first_response response = seq_index response 0"

text \<open>The items a \<^verbatim>\<open>for\<close> loop visits: the keys of a dictionary, the elements of a list,
  the characters of a string.\<close>

fun py_iter :: "pyval \<Rightarrow> exn + pyval list" where
  "py_iter (PDict kvs) = Inr (map fst kvs)"
| "py_iter (PList xs) = Inr xs"
| "py_iter (PStr s) = Inr (map (\<lambda>c. PStr [c]) s)"
| "py_iter _ = Inl TypeError"

fun py_len :: "pyval \<Rightarrow> exn + nat" where
  "py_len (PDict kvs) = Inr (length kvs)"
| "py_len (PList xs) = Inr (length xs)"
| "py_len (PStr s) = Inr (length s)"
| "py_len _ = Inl TypeError"

text \<open>\<^verbatim>\<open>d.items()\<close>: only a dictionary has the method.\<close>

fun py_items :: "pyval \<Rightarrow> exn + (pyval \<times> pyval) list" where
  "py_items (PDict kvs) = Inr kvs"
| "py_items _ = Inl AttributeError"

text \<open>The truth value of an object (\<^verbatim>\<open>if x\<close>, \<^verbatim>\<open>not x\<close>, \<^verbatim>\<open>any\<close>).\<close>

fun truthy :: "pyval \<Rightarrow> bool" where
  "truthy PNone = False"
| "truthy (PBool b) = b"
| "truthy (PInt i) = (i \<noteq> 0)"
| "truthy (PStr s) = (s \<noteq> [])"
| "truthy (PList xs) = (xs \<noteq> [])"
| "truthy (PDict kvs) = (kvs \<noteq> [])"

text \<open>\<^verbatim>\<open>x != 0\<close>: \<^verbatim>\<open>False\<close> equals \<^verbatim>\<open>0\<close> in Python, and
  nothing but a number does.\<close>

fun ne_zero :: "pyval \<Rightarrow> bool" where
  "ne_zero (PInt i) = (i \<noteq> 0)"
| "ne_zero (PBool b) = b"
| "ne_zero _ = True"

subsection \<open>\<^verbatim>\<open>str\<close> and \<^verbatim>\<open>repr\<close>\<close>

definition digit_char :: "nat \<Rightarrow> char" where
  "digit_char d = ''0123456789abcdef'' ! d"

fun str_nat :: "nat \<Rightarrow> string" where
  "str_nat n = (if n < 10 then [digit_char n] else str_nat (n div 10) @ [digit_char (n mod 10)])"

declare str_nat.simps [simp del]

definition str_int :: "int \<Rightarrow> string" where
  "str_int i = (if i < 0 then CHR ''-'' # str_nat (nat (- i)) else str_nat (nat i))"

text \<open>
  \<^verbatim>\<open>repr\<close> of a string. Python quotes with \<^verbatim>\<open>'\<close> unless the string holds one and no
  \<^verbatim>\<open>"\<close>; it escapes the backslash, the quote, tab, newline and carriage return, and
  writes the other unprintable characters as \<^verbatim>\<open>\xhh\<close>. Below 256 the unprintable characters
  are the controls (below 32 and 127 to 159), the no-break space 160 and the soft hyphen 173.
\<close>

definition printable :: "char \<Rightarrow> bool" where
  "printable c = (let n = (of_char c :: nat)
     in 32 \<le> n \<and> n < 127 \<or> 160 < n \<and> n \<noteq> 173)"

definition repr_char :: "char \<Rightarrow> char \<Rightarrow> string" where
  "repr_char quote c =
     (if c = quote \<or> c = CHR 0x5C then [CHR 0x5C, c]
      else if c = CHR 0x09 then [CHR 0x5C, CHR ''t'']
      else if c = CHR 0x0A then [CHR 0x5C, CHR ''n'']
      else if c = CHR 0x0D then [CHR 0x5C, CHR ''r'']
      else if printable c then [c]
      else [CHR 0x5C, CHR ''x'', digit_char (of_char c div 16), digit_char (of_char c mod 16)])"

definition repr_str :: "string \<Rightarrow> string" where
  "repr_str s =
     (let quote = (if CHR 0x27 \<in> set s \<and> CHR 0x22 \<notin> set s then CHR 0x22 else CHR 0x27)
      in quote # concat (map (repr_char quote) s) @ [quote])"

fun join :: "string \<Rightarrow> string list \<Rightarrow> string" where
  "join sep [] = []"
| "join sep [x] = x"
| "join sep (x # y # ys) = x @ sep @ join sep (y # ys)"

fun py_repr :: "pyval \<Rightarrow> string" where
  "py_repr PNone = ''None''"
| "py_repr (PBool b) = (if b then ''True'' else ''False'')"
| "py_repr (PInt i) = str_int i"
| "py_repr (PStr s) = repr_str s"
| "py_repr (PList xs) = ''['' @ join '', '' (map py_repr xs) @ '']''"
| "py_repr (PDict kvs) =
     ''{'' @ join '', '' (map (\<lambda>kv. py_repr (fst kv) @ '': '' @ py_repr (snd kv)) kvs) @ ''}''"

text \<open>\<^verbatim>\<open>str(e)\<close> of a caught exception: of a \<^verbatim>\<open>KeyError\<close> it is the \<^verbatim>\<open>repr\<close> of the key.
  The checks never take the text of the other exceptions.\<close>

fun str_exn :: "exn \<Rightarrow> string" where
  "str_exn (AppError s) = s"
| "str_exn (SocketTimeout s) = s"
| "str_exn (KeyError k) = py_repr k"
| "str_exn _ = []"

section \<open>Results and devices\<close>

datatype status = unset | skipped | success | failure | error

text \<open>
  Modelled from the spec: the class \<^verbatim>\<open>TestResult\<close> of \<^verbatim>\<open>anta.result_manager.models\<close> is not
  among the sources. The spec gives its fields (device identity, test identity, a status
  that starts \<open>unset\<close>, an ordered list of messages that is only appended to); the checks
  call its setters \<^verbatim>\<open>is_success()\<close>, \<^verbatim>\<open>is_failure(message)\<close>, \<^verbatim>\<open>is_skipped(message)\<close> and
  \<^verbatim>\<open>is_error(message)\<close>, each of which sets the status and appends the message when it is
  given one (the unit tests expect no message after a bare \<^verbatim>\<open>is_success()\<close>).
\<close>

record TestResult =
  host :: string
  test :: string
  result :: status
  messages :: "string list"
  history :: "status list"

text \<open>
  \<open>history\<close> is a ghost field: it is not in the program. It lists, in order, every value a
  check has written to \<open>result\<close>, so that what a check does to the status on its way can be
  stated.
\<close>

definition new_result :: "string \<Rightarrow> string \<Rightarrow> TestResult" where
  "new_result h t = \<lparr>host = h, test = t, result = unset, messages = [], history = []\<rparr>"

text \<open>\<^verbatim>\<open>result.result = s\<close>, which the checks of \<^verbatim>\<open>software.py\<close> write themselves.\<close>

definition assign_result :: "status \<Rightarrow> TestResult \<Rightarrow> TestResult" where
  "assign_result s r = r\<lparr>result := s, history := history r @ [s]\<rparr>"

text \<open>\<^verbatim>\<open>result.messages.append(message)\<close>\<close>

definition append_message :: "string \<Rightarrow> TestResult \<Rightarrow> TestResult" where
  "append_message message r = r\<lparr>messages := messages r @ [message]\<rparr>"

definition set_status :: "status \<Rightarrow> string \<Rightarrow> TestResult \<Rightarrow> TestResult" where
  "set_status s message r =
     (let r' = assign_result s r in if message = [] then r' else append_message message r')"

definition is_success :: "TestResult \<Rightarrow> TestResult" where
  "is_success r = set_status success [] r"

definition is_failure :: "string \<Rightarrow> TestResult \<Rightarrow> TestResult" where
  "is_failure message r = set_status failure message r"

definition is_skipped :: "string \<Rightarrow> TestResult \<Rightarrow> TestResult" where
  "is_skipped message r = set_status skipped message r"

definition is_error :: "string \<Rightarrow> TestResult \<Rightarrow> TestResult" where
  "is_error message r = set_status error message r"

text \<open>
  A device is its host name and its session: \<^verbatim>\<open>device.session.runCmds(1, commands, "json")\<close>
  answers a batch of commands with the list of their decoded outputs, or raises.
\<close>

record InventoryDevice =
  device_host :: string
  session :: "string list \<Rightarrow> exn + pyval list"

definition runCmds :: "InventoryDevice \<Rightarrow> string list \<Rightarrow> exn + pyval list" where
  "runCmds device commands = session device commands"

text \<open>
  What a call of a check leaves behind: the batches of commands it sent to the device, in
  order, and either the value it returns or the exception that leaves it.
\<close>

type_synonym 'a run = "string list list \<times> (exn + 'a)"

text \<open>
  \<^verbatim>\<open>except (jsonrpc.AppError, KeyError, socket.timeout) as e: result.is_error(str(e))\<close>,
  the handler of the BGP and VXLAN checks; any other exception leaves the check.
\<close>

fun caught_bgp :: "exn \<Rightarrow> bool" where
  "caught_bgp (AppError _) = True"
| "caught_bgp (KeyError _) = True"
| "caught_bgp (SocketTimeout _) = True"
| "caught_bgp _ = False"

definition except_bgp :: "TestResult \<Rightarrow> exn + TestResult \<Rightarrow> exn + TestResult" where
  "except_bgp res body =
     (case body of
        Inr r \<Rightarrow> Inr r
      | Inl e \<Rightarrow> if caught_bgp e then Inr (is_error (str_exn e) res) else Inl e)"

text \<open>\<^verbatim>\<open>not number\<close>, \<^verbatim>\<open>not vrf\<close>, \<^verbatim>\<open>not versions\<close> for a parameter that may be \<^verbatim>\<open>None\<close>.\<close>

definition not_number :: "int option \<Rightarrow> bool" where
  "not_number number = (case number of None \<Rightarrow> True | Some n \<Rightarrow> n = 0)"

definition not_given :: "'a list option \<Rightarrow> bool" where
  "not_given x = (case x of None \<Rightarrow> True | Some xs \<Rightarrow> xs = [])"

section \<open>BGP checks (\<^verbatim>\<open>anta/tests/routing/bgp.py\<close>)\<close>

text \<open>
  Each function named after a check is the body of that check, as \<^verbatim>\<open>bgp.py\<close> writes it. The
  check that a caller reaches is the body wrapped by the decorator:
  \<^verbatim>\<open>@check_bgp_family_enable("evpn") def verify_bgp_evpn_count(device, number)\<close> is
  \<open>check_bgp_family_enable guard ''evpn'' (\<lambda>device. verify_bgp_evpn_count device number)\<close>.
\<close>

text \<open>
  Modelled from the spec: the decorator \<^verbatim>\<open>check_bgp_family_enable\<close> of \<^verbatim>\<open>anta.decorators\<close> is
  not among the sources. The spec (4.3 and 9) makes it a precondition, "protocol family
  administratively enabled", that is evaluated before the check collects anything: when it
  fails the result is skipped with a message and the check is not run, otherwise the check
  runs. The docstrings of the state checks add that the result is skipped "if no BGP vrf
  are returned by the device". What the decorator asks the device, and what it returns
  when it stops the check, are not given: they are the parameter \<open>guard\<close>, which tells, for
  a family and a device, the batches of commands the decorator sends and either the go-ahead
  or the outcome the decorator returns itself.
\<close>

datatype precheck =
    Proceed "string list list"
  | Stop "string list list" "exn + TestResult"

type_synonym family_guard = "string \<Rightarrow> InventoryDevice \<Rightarrow> precheck"

definition check_bgp_family_enable ::
  "family_guard \<Rightarrow> string \<Rightarrow> (InventoryDevice \<Rightarrow> TestResult run) \<Rightarrow> InventoryDevice
     \<Rightarrow> TestResult run" where
  "check_bgp_family_enable guard family function device =
     (case guard family device of
        Stop sent outcome \<Rightarrow> (sent, outcome)
      | Proceed sent \<Rightarrow> (sent @ fst (function device), snd (function device)))"

text \<open>\<^verbatim>\<open>bgp_vrfs[vrf]["peers"][peer][field]\<close>\<close>

definition peer_field :: "pyval \<Rightarrow> pyval \<Rightarrow> pyval \<Rightarrow> string \<Rightarrow> exn + pyval" where
  "peer_field bgp_vrfs vrf peer field =
     and_then (subscript bgp_vrfs vrf) (\<lambda>v.
     and_then (getitem v ''peers'') (\<lambda>peers.
     and_then (subscript peers peer) (\<lambda>p. getitem p field)))"

text \<open>The condition on a peer: not Established, or a message queue that is not empty
  (\<^verbatim>\<open>or\<close> stops at the first operand that holds).\<close>

definition peer_has_issue :: "pyval \<Rightarrow> pyval \<Rightarrow> pyval \<Rightarrow> exn + bool" where
  "peer_has_issue bgp_vrfs vrf peer =
     and_then (peer_field bgp_vrfs vrf peer ''peerState'') (\<lambda>state.
       if state \<noteq> PStr ''Established'' then Inr True
       else and_then (peer_field bgp_vrfs vrf peer ''inMsgQueue'') (\<lambda>inq.
         if ne_zero inq then Inr True
         else and_then (peer_field bgp_vrfs vrf peer ''outMsgQueue'') (\<lambda>outq.
           Inr (ne_zero outq))))"

text \<open>The dictionary recorded for a peer with an issue.\<close>

definition peer_issue :: "pyval \<Rightarrow> pyval \<Rightarrow> pyval \<Rightarrow> exn + pyval" where
  "peer_issue bgp_vrfs vrf peer =
     and_then (peer_field bgp_vrfs vrf peer ''peerState'') (\<lambda>state.
     and_then (peer_field bgp_vrfs vrf peer ''inMsgQueue'') (\<lambda>inq.
     and_then (peer_field bgp_vrfs vrf peer ''outMsgQueue'') (\<lambda>outq.
       Inr (PDict [(PStr ''peerState'', state), (PStr ''inMsgQueue'', inq),
                   (PStr ''outMsgQueue'', outq)]))))"

text \<open>
  \<^verbatim>\<open>state_issue\<close> maps a VRF to the dictionary of its peers with an issue.
  \<^verbatim>\<open>state_issue.setdefault(vrf, {}).update({peer: entry})\<close>:
\<close>

type_synonym issues = "(pyval \<times> (pyval \<times> pyval) list) list"

definition record_issue :: "pyval \<Rightarrow> pyval \<Rightarrow> pyval \<Rightarrow> issues \<Rightarrow> issues" where
  "record_issue vrf peer entry state_issue =
     (let vrf_dict = (case map_of state_issue vrf of None \<Rightarrow> [] | Some d \<Rightarrow> d)
      in AList.update vrf (AList.update peer entry vrf_dict) state_issue)"

definition issues_dict :: "issues \<Rightarrow> pyval" where
  "issues_dict state_issue = PDict (map (\<lambda>vd. (fst vd, PDict (snd vd))) state_issue)"

text \<open>The inner loop \<^verbatim>\<open>for peer in bgp_vrfs[vrf]["peers"]\<close> and the outer loop
  \<^verbatim>\<open>for vrf in bgp_vrfs\<close>.\<close>

fun scan_peers :: "pyval \<Rightarrow> pyval \<Rightarrow> pyval list \<Rightarrow> issues \<Rightarrow> exn + issues" where
  "scan_peers bgp_vrfs vrf [] state_issue = Inr state_issue"
| "scan_peers bgp_vrfs vrf (peer # rest) state_issue =
     and_then (peer_has_issue bgp_vrfs vrf peer) (\<lambda>bad.
       if bad
       then and_then (peer_issue bgp_vrfs vrf peer) (\<lambda>entry.
              scan_peers bgp_vrfs vrf rest (record_issue vrf peer entry state_issue))
       else scan_peers bgp_vrfs vrf rest state_issue)"

fun scan_vrfs :: "pyval \<Rightarrow> pyval list \<Rightarrow> issues \<Rightarrow> exn + issues" where
  "scan_vrfs bgp_vrfs [] state_issue = Inr state_issue"
| "scan_vrfs bgp_vrfs (vrf # rest) state_issue =
     and_then (subscript bgp_vrfs vrf) (\<lambda>v.
     and_then (getitem v ''peers'') (\<lambda>peers.
     and_then (py_iter peers) (\<lambda>ps.
     and_then (scan_peers bgp_vrfs vrf ps state_issue) (\<lambda>state_issue'.
       scan_vrfs bgp_vrfs rest state_issue'))))"

text \<open>
  \<^verbatim>\<open>verify_bgp_ipv4_unicast_state\<close> and \<^verbatim>\<open>verify_bgp_ipv6_unicast_state\<close> are the same text
  but for the name of the check, the command and the family in the message.
\<close>

definition unicast_state :: "string \<Rightarrow> string \<Rightarrow> string \<Rightarrow> InventoryDevice \<Rightarrow> TestResult run" where
  "unicast_state function_name family command device =
     (let res = new_result (device_host device) function_name
      in ([[command]],
          except_bgp res
            (and_then (runCmds device [command]) (\<lambda>response.
             and_then (first_response response) (\<lambda>r0.
             and_then (getitem r0 ''vrfs'') (\<lambda>bgp_vrfs.
             and_then (py_iter bgp_vrfs) (\<lambda>vrfs.
             and_then (scan_vrfs bgp_vrfs vrfs []) (\<lambda>state_issue.
               if state_issue = [] then Inr (is_success res)
               else Inr (is_failure
                      (''Some '' @ family @ '' Unicast BGP Peer are not up: ''
                         @ py_repr (issues_dict state_issue)) res)))))))))"

definition verify_bgp_ipv4_unicast_state :: "InventoryDevice \<Rightarrow> TestResult run" where
  "verify_bgp_ipv4_unicast_state device =
     unicast_state ''verify_bgp_ipv4_unicast_state'' ''IPv4''
       ''show bgp ipv4 unicast summary vrf all'' device"


text \<open>The dictionary comprehension of \<^verbatim>\<open>verify_bgp_ipv4_unicast_count\<close>.\<close>

fun collect_issues ::
  "pyval \<Rightarrow> pyval \<Rightarrow> pyval list \<Rightarrow> (pyval \<times> pyval) list \<Rightarrow> exn + (pyval \<times> pyval) list" where
  "collect_issues bgp_vrfs vrf [] acc = Inr acc"
| "collect_issues bgp_vrfs vrf (peer # rest) acc =
     and_then (peer_has_issue bgp_vrfs vrf peer) (\<lambda>bad.
       if bad
       then and_then (peer_issue bgp_vrfs vrf peer) (\<lambda>entry.
              collect_issues bgp_vrfs vrf rest (AList.update peer entry acc))
       else collect_issues bgp_vrfs vrf rest acc)"

definition verify_bgp_ipv4_unicast_count ::
  "InventoryDevice \<Rightarrow> int option \<Rightarrow> string option \<Rightarrow> TestResult run" where
  "verify_bgp_ipv4_unicast_count device number vrf =
     (let res = new_result (device_host device) ''verify_bgp_ipv4_unicast_count''
      in if not_number number \<or> not_given vrf
         then ([], Inr (is_skipped
            ''verify_bgp_ipv4_unicast_count could not run because number of vrf was not supplied''
            res))
         else
           (let n = the number; v = the vrf;
                command = ''show bgp ipv4 unicast summary vrf '' @ v
            in ([[command]],
                except_bgp res
                  (and_then (runCmds device [command]) (\<lambda>response.
                   and_then (first_response response) (\<lambda>r0.
                   and_then (getitem r0 ''vrfs'') (\<lambda>bgp_vrfs.
                   and_then (getitem bgp_vrfs v) (\<lambda>the_vrf.
                   and_then (getitem the_vrf ''peers'') (\<lambda>peers.
                   and_then (py_len peers) (\<lambda>peer_number.
                   and_then (py_iter peers) (\<lambda>ps.
                   and_then (collect_issues bgp_vrfs (PStr v) ps []) (\<lambda>peer_state_issue.
                     if int peer_number = n \<or> peer_state_issue \<noteq> []
                     then Inr (is_success res)
                     else
                       (let res' = is_failure
                              (''Expecting '' @ str_int n @ '' BGP peer in vrf '' @ v
                                 @ '' and got '' @ str_nat peer_number) res
                        in if peer_state_issue \<noteq> []
                           then Inr (is_failure
                                  (''Some IPv4 Unicast BGP Peer are not up: ''
                                     @ py_repr (PDict peer_state_issue)) res')
                           else Inr res')))))))))))))"

text \<open>\<^verbatim>\<open>[peer for peer, peer_dict in peers.items() if peer_dict["peerState"] != "Established"]\<close>\<close>

fun non_established :: "(pyval \<times> pyval) list \<Rightarrow> exn + pyval list" where
  "non_established [] = Inr []"
| "non_established ((peer, peer_dict) # rest) =
     and_then (getitem peer_dict ''peerState'') (\<lambda>state.
     and_then (non_established rest) (\<lambda>others.
       Inr (if state \<noteq> PStr ''Established'' then peer # others else others)))"

text \<open>\<^verbatim>\<open>response[0]["vrfs"]["default"]["peers"]\<close>\<close>

definition default_peers :: "pyval list \<Rightarrow> exn + pyval" where
  "default_peers response =
     and_then (first_response response) (\<lambda>r0.
     and_then (getitem r0 ''vrfs'') (\<lambda>bgp_vrfs.
     and_then (getitem bgp_vrfs ''default'') (\<lambda>d. getitem d ''peers'')))"




definition verify_bgp_evpn_count :: "InventoryDevice \<Rightarrow> int option \<Rightarrow> TestResult run" where
  "verify_bgp_evpn_count device number =
     (let res = new_result (device_host device) ''verify_bgp_evpn_count''
      in if not_number number
         then ([], Inr (is_skipped
            ''verify_bgp_evpn_count could not run because number was not supplied.'' res))
         else
           (let n = the number; command = ''show bgp evpn summary''
            in ([[command]],
                except_bgp res
                  (and_then (runCmds device [command]) (\<lambda>response.
                   and_then (default_peers response) (\<lambda>peers.
                   and_then (py_len peers) (\<lambda>len_peers.
                     if int len_peers = n then Inr (is_success res)
                     else
                       (let res' = is_failure [] res
                        in if int len_peers \<noteq> n
                           then Inr (append_message
                                  (''Expecting '' @ str_int n @ '' BGP EVPN peers and got ''
                                     @ str_nat len_peers) res')
                           else Inr res'))))))))"

definition verify_bgp_rtc_count :: "InventoryDevice \<Rightarrow> int option \<Rightarrow> TestResult run" where
  "verify_bgp_rtc_count device number =
     (let res = new_result (device_host device) ''verify_bgp_rtc_count''
      in if not_number number
         then ([], Inr (is_skipped
            ''verify_bgp_rtc_count could not run because number was not supplied'' res))
         else
           (let n = the number; command = ''show bgp rt-membership summary''
            in ([[command]],
                except_bgp res
                  (and_then (runCmds device [command]) (\<lambda>response.
                   and_then (default_peers response) (\<lambda>peers.
                   and_then (py_items peers) (\<lambda>items.
                   and_then (non_established items) (\<lambda>non_established_peers.
                   and_then (py_len peers) (\<lambda>len_peers.
                     if non_established_peers = [] \<and> int len_peers = n
                     then Inr (is_success res)
                     else
                       (let res' = is_failure [] res
                        in if int len_peers \<noteq> n
                           then Inr (is_failure
                                  (''Expecting '' @ str_int n @ '' BGP RTC peers and got ''
                                     @ str_nat len_peers) res')
                           else Inr res'))))))))))"

section \<open>VXLAN checks (\<^verbatim>\<open>anta/tests/vxlan.py\<close>)\<close>

text \<open>\<^verbatim>\<open>str(x)\<close>, as an f-string formats a value: a string is itself.\<close>

fun py_str :: "pyval \<Rightarrow> string" where
  "py_str (PStr s) = s"
| "py_str x = py_repr x"

fun occurs_in :: "string \<Rightarrow> string \<Rightarrow> bool" where
  "occurs_in sub [] = (sub = [])"
| "occurs_in sub (c # cs) = (take (length sub) (c # cs) = sub \<or> occurs_in sub cs)"

text \<open>\<^verbatim>\<open>"key" in x\<close>: a key of a dictionary, an element of a list, a part of a string.\<close>

fun py_contains :: "string \<Rightarrow> pyval \<Rightarrow> exn + bool" where
  "py_contains k (PDict kvs) = Inr (PStr k \<in> set (map fst kvs))"
| "py_contains k (PList xs) = Inr (PStr k \<in> set xs)"
| "py_contains k (PStr s) = Inr (occurs_in k s)"
| "py_contains k _ = Inl TypeError"

definition verify_vxlan :: "InventoryDevice \<Rightarrow> TestResult run" where
  "verify_vxlan device =
     (let res = new_result (device_host device) ''verify_vxlan'';
          command = ''show interfaces description''
      in ([[command]],
          except_bgp res
            (and_then (runCmds device [command]) (\<lambda>response.
             and_then (first_response response) (\<lambda>r0.
             and_then (getitem r0 ''interfaceDescriptions'') (\<lambda>response_data.
             and_then (py_contains ''Vxlan1'' response_data) (\<lambda>present.
               if \<not> present then Inr (is_failure ''No interface VXLAN 1 detected.'' res)
               else
                 and_then (getitem response_data ''Vxlan1'') (\<lambda>vxlan1.
                 and_then (getitem vxlan1 ''lineProtocolStatus'') (\<lambda>protocol_status.
                 and_then (getitem response_data ''Vxlan1'') (\<lambda>vxlan1'.
                 and_then (getitem vxlan1' ''intefraceStatus'') (\<lambda>interface_status.
                   if protocol_status = PStr ''up'' \<and> interface_status = PStr ''up''
                   then Inr (is_success res)
                   else Inr (append_message
                          (''Vxlan interface is '' @ py_str protocol_status @ ''/''
                             @ py_str interface_status @ ''.'') res))))))))))))"



section \<open>Software checks (\<^verbatim>\<open>anta/tests/software.py\<close>)\<close>

text \<open>
  \<^verbatim>\<open>except (jsonrpc.AppError, KeyError) as e: result.messages.append(str(e)); result.result = 'error'\<close>.
  The handler works on the result as the body left it when it raised.
\<close>

fun caught_software :: "exn \<Rightarrow> bool" where
  "caught_software (AppError _) = True"
| "caught_software (KeyError _) = True"
| "caught_software _ = False"

definition except_software :: "TestResult \<Rightarrow> exn + TestResult \<Rightarrow> exn + TestResult" where
  "except_software res body =
     (case body of
        Inr r \<Rightarrow> Inr r
      | Inl e \<Rightarrow>
          if caught_software e then Inr (assign_result error (append_message (str_exn e) res))
          else Inl e)"

definition verify_eos_version :: "InventoryDevice \<Rightarrow> string list option \<Rightarrow> TestResult run" where
  "verify_eos_version device versions =
     (let res = new_result (device_host device) ''verify_eos_version''
      in if not_given versions
         then ([], Inr (append_message
                  ''verify_eos_version was not run as no versions were givem''
                  (assign_result unset res)))
         else ([[''show version'']],
               except_software res
                 (and_then (runCmds device [''show version'']) (\<lambda>response.
                  and_then (first_response response) (\<lambda>r0.
                  and_then (getitem r0 ''version'') (\<lambda>version.
                    if version \<in> set (map PStr (the versions))
                    then Inr (assign_result success res)
                    else Inr (append_message
                           (''device is running version '' @ py_str version
                              @ '' not in expected version'')
                           (assign_result failure res))))))))"

text \<open>\<^verbatim>\<open>response[0]['details']['packages']['TerminAttr-core']['version']\<close>\<close>

definition terminattr_version :: "pyval list \<Rightarrow> exn + pyval" where
  "terminattr_version response =
     and_then (first_response response) (\<lambda>r0.
     and_then (getitem r0 ''details'') (\<lambda>details.
     and_then (getitem details ''packages'') (\<lambda>packages.
     and_then (getitem packages ''TerminAttr-core'') (\<lambda>core. getitem core ''version''))))"

definition verify_terminattr_version :: "InventoryDevice \<Rightarrow> string list option \<Rightarrow> TestResult run" where
  "verify_terminattr_version device versions =
     (let res = new_result (device_host device) ''verify_terminattr_version''
      in if not_given versions
         then ([], Inr (append_message
                  ''verify_terminattr_version was not run as no versions were givem''
                  (assign_result unset res)))
         else ([[''show version detail'']],
               except_software res
                 (and_then (runCmds device [''show version detail'']) (\<lambda>response.
                  and_then (terminattr_version response) (\<lambda>response_data.
                    if response_data \<in> set (map PStr (the versions))
                    then Inr (assign_result success res)
                    else Inr (append_message
                           (''device is running TerminAttr version '' @ py_str response_data
                              @ '' and is not in the allowed list'')
                           (assign_result failure res)))))))"

subsection \<open>\<^verbatim>\<open>verify_eos_extensions\<close>\<close>

text \<open>\<^verbatim>\<open>s.strip('\n')\<close>\<close>

definition strip_newlines :: "string \<Rightarrow> string" where
  "strip_newlines s =
     rev (dropWhile (\<lambda>c. c = CHR 0x0A) (rev (dropWhile (\<lambda>c. c = CHR 0x0A) s)))"

text \<open>
  \<^verbatim>\<open>xs.sort()\<close> on a list of dictionary keys (\<^verbatim>\<open>None\<close>, booleans, integers, strings). Strings
  are ordered by code points, numbers by value; a list of two or more items that are not all
  strings or all numbers raises \<^verbatim>\<open>TypeError\<close>, since a sort has to compare, directly, items
  of the two kinds.
\<close>

fun is_str :: "pyval \<Rightarrow> bool" where
  "is_str (PStr _) = True"
| "is_str _ = False"

fun the_str :: "pyval \<Rightarrow> string" where
  "the_str (PStr s) = s"
| "the_str _ = []"

fun is_num :: "pyval \<Rightarrow> bool" where
  "is_num (PInt _) = True"
| "is_num (PBool _) = True"
| "is_num _ = False"

fun num_val :: "pyval \<Rightarrow> int" where
  "num_val (PInt i) = i"
| "num_val (PBool b) = (if b then 1 else 0)"
| "num_val _ = 0"

definition py_sort :: "pyval list \<Rightarrow> exn + pyval list" where
  "py_sort xs =
     (if length xs \<le> 1 then Inr xs
      else if list_all is_str xs then Inr (map PStr (sort (map the_str xs)))
      else if list_all is_num xs then Inr (sort_key num_val xs)
      else Inl TypeError)"

text \<open>The loop over \<^verbatim>\<open>response[0]['extensions']\<close>, which reads
  \<^verbatim>\<open>response[0]['extensions'][extension]['status']\<close> for each key.\<close>

fun installed_loop :: "pyval list \<Rightarrow> pyval list \<Rightarrow> exn + pyval list" where
  "installed_loop response [] = Inr []"
| "installed_loop response (extension # rest) =
     and_then (first_response response) (\<lambda>r0.
     and_then (getitem r0 ''extensions'') (\<lambda>extensions.
     and_then (subscript extensions extension) (\<lambda>entry.
     and_then (getitem entry ''status'') (\<lambda>st.
     and_then (installed_loop response rest) (\<lambda>others.
       Inr (if st = PStr ''installed'' then extension # others else others))))))"

text \<open>The loop over \<^verbatim>\<open>response[1]['extensions']\<close>: only a string has \<^verbatim>\<open>strip\<close>.\<close>

fun boot_loop :: "pyval list \<Rightarrow> exn + pyval list" where
  "boot_loop [] = Inr []"
| "boot_loop (PStr s # rest) =
     and_then (boot_loop rest) (\<lambda>others.
       Inr (if strip_newlines s = [] then others else PStr (strip_newlines s) # others))"
| "boot_loop (_ # rest) = Inl AttributeError"

text \<open>The second \<^verbatim>\<open>try\<close> block; \<^verbatim>\<open>True\<close> when the two sorted lists are equal.\<close>

definition extensions_match :: "pyval list \<Rightarrow> exn + bool" where
  "extensions_match response =
     and_then (first_response response) (\<lambda>r0.
     and_then (getitem r0 ''extensions'') (\<lambda>extensions.
     and_then (py_iter extensions) (\<lambda>keys.
     and_then (installed_loop response keys) (\<lambda>installed_extensions.
     and_then (seq_index response 1) (\<lambda>r1.
     and_then (getitem r1 ''extensions'') (\<lambda>boot.
     and_then (py_iter boot) (\<lambda>lines.
     and_then (boot_loop lines) (\<lambda>boot_extensions.
     and_then (py_sort installed_extensions) (\<lambda>installed_sorted.
     and_then (py_sort boot_extensions) (\<lambda>boot_sorted.
       Inr (installed_sorted = boot_sorted)))))))))))"

text \<open>The check returns \<^verbatim>\<open>True\<close>, \<^verbatim>\<open>False\<close> or \<^verbatim>\<open>None\<close>, not a \<^verbatim>\<open>TestResult\<close>.\<close>

definition verify_eos_extensions :: "InventoryDevice \<Rightarrow> pyval run" where
  "verify_eos_extensions device =
     (let commands = [''show extensions'', ''show boot-extensions'']
      in ([commands],
          (case runCmds device commands of
             Inl (AppError _) \<Rightarrow> Inr PNone
           | Inl e \<Rightarrow> Inl e
           | Inr response \<Rightarrow>
               (case extensions_match response of
                  Inl (KeyError _) \<Rightarrow> Inr PNone
                | Inl e \<Rightarrow> Inl e
                | Inr b \<Rightarrow> Inr (PBool b)))))"

subsection \<open>\<^verbatim>\<open>verify_field_notice_44_resolution\<close>\<close>

definition devices :: "string list" where
  "devices =
     [
      ''DCS-7010T-48'', ''DCS-7010T-48-DC'', ''DCS-7050TX-48'', ''DCS-7050TX-64'',
      ''DCS-7050TX-72'', ''DCS-7050TX-72Q'', ''DCS-7050TX-96'', ''DCS-7050TX2-128'',
      ''DCS-7050SX-64'', ''DCS-7050SX-72'', ''DCS-7050SX-72Q'', ''DCS-7050SX2-72Q'',
      ''DCS-7050SX-96'', ''DCS-7050SX2-128'', ''DCS-7050QX-32S'', ''DCS-7050QX2-32S'',
      ''DCS-7050SX3-48YC12'', ''DCS-7050CX3-32S'', ''DCS-7060CX-32S'', ''DCS-7060CX2-32S'',
      ''DCS-7060SX2-48YC6'', ''DCS-7160-48YC6'', ''DCS-7160-48TC6'', ''DCS-7160-32CQ'',
      ''DCS-7280SE-64'', ''DCS-7280SE-68'', ''DCS-7280SE-72'', ''DCS-7150SC-24-CLD'',
      ''DCS-7150SC-64-CLD'', ''DCS-7020TR-48'', ''DCS-7020TRA-48'', ''DCS-7020SR-24C2'',
      ''DCS-7020SRG-24C2'', ''DCS-7280TR-48C6'', ''DCS-7280TRA-48C6'', ''DCS-7280SR-48C6'',
      ''DCS-7280SRA-48C6'', ''DCS-7280SRAM-48C6'', ''DCS-7280SR2K-48C6-M'', ''DCS-7280SR2-48YC6'',
      ''DCS-7280SR2A-48YC6'', ''DCS-7280SRM-40CX2'', ''DCS-7280QR-C36'', ''DCS-7280QRA-C36S'']"

definition variants :: "string list" where
  "variants = [''-SSD-F'', ''-SSD-R'', ''-M-F'', ''-M-R'', ''-F'', ''-R'']"

text \<open>\<^verbatim>\<open>s.replace(old, '')\<close>: every occurrence of \<open>old\<close> goes, found from the left.\<close>

function remove_all :: "string \<Rightarrow> string \<Rightarrow> string" where
  "remove_all old [] = []"
| "remove_all old (c # cs) =
     (if old \<noteq> [] \<and> take (length old) (c # cs) = old
      then remove_all old (drop (length old) (c # cs))
      else c # remove_all old cs)"
  by pat_completeness auto
termination
  by (relation "measure (\<lambda>(old, s). length s)") (auto simp: Suc_diff_le)

text \<open>\<^verbatim>\<open>for variant in variants: model = model.replace(variant, '')\<close>; only a string has
  \<^verbatim>\<open>replace\<close>.\<close>

fun strip_variants :: "pyval \<Rightarrow> exn + string" where
  "strip_variants (PStr s) = Inr (foldl (\<lambda>model variant. remove_all variant model) s variants)"
| "strip_variants _ = Inl AttributeError"

text \<open>\<^verbatim>\<open>s.split(sep)\<close> for a separator of one character, and \<^verbatim>\<open>s.startswith(prefix)\<close>.\<close>

fun split_on :: "char \<Rightarrow> string \<Rightarrow> string list" where
  "split_on sep [] = [[]]"
| "split_on sep (c # cs) =
     (if c = sep then [] # split_on sep cs
      else (case split_on sep cs of p # ps \<Rightarrow> (c # p) # ps | [] \<Rightarrow> [[c]]))"

fun py_split :: "pyval \<Rightarrow> char \<Rightarrow> exn + string list" where
  "py_split (PStr s) sep = Inr (split_on sep s)"
| "py_split _ sep = Inl AttributeError"

definition startswith :: "string \<Rightarrow> string \<Rightarrow> bool" where
  "startswith s prefix = (take (length prefix) s = prefix)"

text \<open>
  \<^verbatim>\<open>int(s)\<close>: white space around the number is dropped, a sign may come first, and the
  digits may be grouped by single underscores; anything else raises \<^verbatim>\<open>ValueError\<close>. White
  space is tab to carriage return (9 to 13), the space, and the next-line and no-break
  space characters 133 and 160; the separators 28 to 31 are not.
\<close>

definition py_space :: "char \<Rightarrow> bool" where
  "py_space c = (let n = (of_char c :: nat)
     in 9 \<le> n \<and> n \<le> 13 \<or> n = 32 \<or> n = 133 \<or> n = 160)"

definition is_digit :: "char \<Rightarrow> bool" where
  "is_digit c = (let n = (of_char c :: nat) in 48 \<le> n \<and> n \<le> 57)"

fun parse_digits :: "string \<Rightarrow> nat \<Rightarrow> nat option" where
  "parse_digits [] acc = Some acc"
| "parse_digits (c # cs) acc =
     (if is_digit c then parse_digits cs (10 * acc + (of_char c - 48))
      else if c = CHR ''_'' \<and> cs \<noteq> [] \<and> is_digit (hd cs) then parse_digits cs acc
      else None)"

definition parse_nat :: "string \<Rightarrow> nat option" where
  "parse_nat s = (if s \<noteq> [] \<and> is_digit (hd s) then parse_digits s 0 else None)"

definition py_int :: "string \<Rightarrow> exn + int" where
  "py_int s =
     (let t = rev (dropWhile py_space (rev (dropWhile py_space s)));
          negative = (t \<noteq> [] \<and> hd t = CHR ''-'');
          body = (if t \<noteq> [] \<and> (hd t = CHR ''-'' \<or> hd t = CHR ''+'') then tl t else t)
      in case parse_nat body of
           None \<Rightarrow> Inl ValueError
         | Some n \<Rightarrow> Inr (if negative then - int n else int n))"

text \<open>The loop over the components: the last component named Aboot sets
  \<^verbatim>\<open>aboot_version\<close>, which is unbound (\<open>None\<close>) until then.\<close>

fun find_aboot :: "pyval list \<Rightarrow> string option \<Rightarrow> exn + string option" where
  "find_aboot [] aboot_version = Inr aboot_version"
| "find_aboot (component # rest) aboot_version =
     and_then (getitem component ''name'') (\<lambda>name.
       if name = PStr ''Aboot''
       then and_then (getitem component ''version'') (\<lambda>version.
            and_then (py_split version CHR ''-'') (\<lambda>parts.
            and_then (seq_index parts 2) (\<lambda>v. find_aboot rest (Some v))))
       else find_aboot rest aboot_version)"

text \<open>\<^verbatim>\<open>aboot_version.startswith(prefix) and int(aboot_version.split('.')[2]) < bound\<close>\<close>

definition older_than :: "string \<Rightarrow> string \<Rightarrow> int \<Rightarrow> exn + bool" where
  "older_than aboot_version prefix bound =
     (if startswith aboot_version prefix
      then and_then (seq_index (split_on CHR ''.'' aboot_version) 2) (\<lambda>part.
           and_then (py_int part) (\<lambda>n. Inr (n < bound)))
      else Inr False)"

text \<open>The chain of \<^verbatim>\<open>if\<close> and \<^verbatim>\<open>elif\<close> that follows \<^verbatim>\<open>result.result = 'success'\<close>.\<close>

definition compare_aboot :: "string \<Rightarrow> TestResult \<Rightarrow> exn + TestResult" where
  "compare_aboot aboot_version res =
     (let incorrect = append_message
            (''device is running incorrect version of aboot ('' @ aboot_version @ '')'')
            (assign_result failure res)
      in and_then (older_than aboot_version ''4.0.'' 7) (\<lambda>a.
           if a then Inr incorrect
           else and_then (older_than aboot_version ''4.1.'' 1) (\<lambda>b.
             if b then Inr incorrect
             else and_then (older_than aboot_version ''6.0.'' 9) (\<lambda>c.
               if c then Inr incorrect
               else and_then (older_than aboot_version ''6.1.'' 7) (\<lambda>d.
                 if d then Inr incorrect else Inr res)))))"

text \<open>
  The body is one \<^verbatim>\<open>try\<close> block. Its handler finds the result as the body left it, so the
  model gives the handler the fresh result for what raises before line 199, and the result
  after line 200 for what raises later.
\<close>

definition verify_field_notice_44_resolution :: "InventoryDevice \<Rightarrow> TestResult run" where
  "verify_field_notice_44_resolution device =
     (let res = new_result (device_host device) ''verify_field_notice_44_resolution''
      in ([[''show version detail'']],
          except_software res
            (and_then (runCmds device [''show version detail'']) (\<lambda>response.
             and_then (first_response response) (\<lambda>r0.
             and_then (getitem r0 ''modelName'') (\<lambda>model_name.
             and_then (strip_variants model_name) (\<lambda>model.
               (let res1 = (if model \<notin> set devices
                            then append_message ''device is not impacted by FN044''
                                   (assign_result unset res)
                            else res)
                in except_software res1
                     (and_then (first_response response) (\<lambda>r0'.
                      and_then (getitem r0' ''details'') (\<lambda>details.
                      and_then (getitem details ''components'') (\<lambda>components.
                      and_then (py_iter components) (\<lambda>cs.
                      and_then (find_aboot cs None) (\<lambda>aboot_version.
                        (case aboot_version of
                           None \<Rightarrow> Inl UnboundLocalError
                         | Some v \<Rightarrow> compare_aboot v (assign_result success res1))))))))))))))))"

section \<open>Configuration checks (\<^verbatim>\<open>anta/tests/configuration.py\<close>)\<close>

text \<open>
  A check of this file is a class; its method \<^verbatim>\<open>test\<close> reads the outputs that the
  decorator \<^verbatim>\<open>AntaTest.anta_test\<close> (of \<^verbatim>\<open>anta.models\<close>, not among the sources) has collected
  in \<^verbatim>\<open>self.instance_commands\<close>, and writes to \<^verbatim>\<open>self.result\<close>. The model of \<^verbatim>\<open>test\<close> takes
  the two and gives the result as the method leaves it, with the exception that ended it if
  one did.
\<close>

record AntaTestCommand =
  command :: string
  ofmt :: string
  "output" :: pyval

fun is_dict :: "pyval \<Rightarrow> bool" where
  "is_dict (PDict _) = True"
| "is_dict _ = False"

definition VerifyZeroTouch_test ::
  "AntaTestCommand list \<Rightarrow> TestResult \<Rightarrow> TestResult \<times> exn option" where
  "VerifyZeroTouch_test instance_commands res =
     (case and_then (seq_index instance_commands 0) (\<lambda>c0.
           and_then (subscript (output c0) (PInt 0)) (\<lambda>command_output.
             if \<not> is_dict command_output then Inl AssertionError
             else and_then (getitem command_output ''mode'') (\<lambda>mode.
               Inr (if mode = PStr ''disabled'' then is_success res
                    else is_failure ''ZTP is NOT disabled'' res)))) of
        Inl e \<Rightarrow> (res, Some e)
      | Inr r \<Rightarrow> (r, None))"

text \<open>\<^verbatim>\<open>for line in command_output: self.result.is_failure(line)\<close>; a line that is not a
  string is written as \<^verbatim>\<open>str\<close> gives it.\<close>

fun report_lines :: "pyval list \<Rightarrow> TestResult \<Rightarrow> TestResult" where
  "report_lines [] res = res"
| "report_lines (line # rest) res = report_lines rest (is_failure (py_str line) res)"

fun VerifyRunningConfigDiffs_verdict :: "pyval \<Rightarrow> TestResult \<Rightarrow> TestResult \<times> exn option" where
  "VerifyRunningConfigDiffs_verdict PNone res = (is_success res, None)"
| "VerifyRunningConfigDiffs_verdict (PList cmds) res =
     (if \<not> list_ex (\<lambda>cmd. cmd \<noteq> PStr [] \<and> truthy cmd) cmds then (is_success res, None)
      else (res, None))"
| "VerifyRunningConfigDiffs_verdict command_output res =
     (case py_iter command_output of
        Inl e \<Rightarrow> (is_failure [] res, Some e)
      | Inr lines \<Rightarrow> (report_lines lines (is_failure [] res), None))"

definition VerifyRunningConfigDiffs_test ::
  "AntaTestCommand list \<Rightarrow> TestResult \<Rightarrow> TestResult \<times> exn option" where
  "VerifyRunningConfigDiffs_test instance_commands res =
     (case seq_index instance_commands 0 of
        Inl e \<Rightarrow> (res, Some e)
      | Inr c0 \<Rightarrow> VerifyRunningConfigDiffs_verdict (output c0) res)"

section \<open>Devices and answers for the examples\<close>

text \<open>A device that answers every batch of commands with the same response, and one whose
  session raises.\<close>

definition answering :: "pyval list \<Rightarrow> InventoryDevice" where
  "answering response = \<lparr>device_host = ''leaf1'', session = (\<lambda>commands. Inr response)\<rparr>"

definition raising :: "exn \<Rightarrow> InventoryDevice" where
  "raising e = \<lparr>device_host = ''leaf1'', session = (\<lambda>commands. Inl e)\<rparr>"


text \<open>A BGP summary as the device gives it, cut down to the fields the checks read: VRFs
  by name, each with its peers by address, each peer with its state and its two queues.\<close>

definition peer :: "string \<Rightarrow> int \<Rightarrow> int \<Rightarrow> pyval" where
  "peer state inq outq =
     PDict [(PStr ''peerState'', PStr state), (PStr ''inMsgQueue'', PInt inq),
            (PStr ''outMsgQueue'', PInt outq)]"

definition bgp_summary :: "(string \<times> (string \<times> pyval) list) list \<Rightarrow> pyval list" where
  "bgp_summary vrfs =
     [PDict [(PStr ''vrfs'',
        PDict (map (\<lambda>vp. (PStr (fst vp),
                 PDict [(PStr ''peers'', PDict (map (\<lambda>np. (PStr (fst np), snd np)) (snd vp)))]))
               vrfs))]]"


text \<open>The answer to \<^verbatim>\<open>show interfaces description\<close> with the given fields for Vxlan1.\<close>

definition vxlan_description :: "(string \<times> string) list \<Rightarrow> pyval list" where
  "vxlan_description entries =
     [PDict [(PStr ''interfaceDescriptions'',
        PDict [(PStr ''Vxlan1'', PDict (map (\<lambda>kv. (PStr (fst kv), PStr (snd kv))) entries))])]]"


section \<open>The checks, listed\<close>





section \<open>Well-formed BGP summaries\<close>








section \<open>Properties\<close>

subsection \<open>Steps that may raise\<close>

lemma and_then_Inr [simp]: "and_then (Inr x) f = f x"
  by (simp add: and_then_def)

lemma and_then_Inl [simp]: "and_then (Inl e) f = Inl e"
  by (simp add: and_then_def)


lemma and_then_eq_Inl: "and_then m f = Inl e \<longleftrightarrow> m = Inl e \<or> (\<exists>x. m = Inr x \<and> f x = Inl e)"
  by (cases m) simp_all





lemma first_response_Cons [simp]: "first_response (r # rs) = Inr r"
  by (simp add: first_response_def seq_index_def)

lemma getitem_dict:
  "getitem (PDict kvs) k =
     (case map_of kvs (PStr k) of Some v \<Rightarrow> Inr v | None \<Rightarrow> Inl (KeyError (PStr k)))"
  by (simp add: getitem_def)

lemma py_contains_dict: "py_contains k (PDict kvs) = Inr (map_of kvs (PStr k) \<noteq> None)"
  by (simp add: map_of_eq_None_iff)

lemmas result_writes =
  is_success_def is_failure_def is_skipped_def is_error_def set_status_def
  assign_result_def append_message_def new_result_def





lemma history_writes [simp]:
  "history (new_result h t) = []"
  "history (assign_result s r) = history r @ [s]"
  "history (append_message m r) = history r"
  "history (set_status s m r) = history r @ [s]"
  "history (is_success r) = history r @ [success]"
  "history (is_failure m r) = history r @ [failure]"
  "history (is_skipped m r) = history r @ [skipped]"
  "history (is_error m r) = history r @ [error]"
  by (simp_all add: result_writes Let_def)


subsection \<open>What the handlers catch\<close>










subsection \<open>The values written to the status\<close>












subsection \<open>Reading a well-formed summary\<close>




















subsection \<open>An expected number of zero\<close>



subsection \<open>Counting checks and unhealthy peers\<close>

text \<open>
  C1. A counting check is to report success only when the number of peers is the expected
  one and every peer is Established (with empty queues where the check says so). The code
  does not: with one peer expected and one peer in state Idle, \<^verbatim>\<open>verify_bgp_ipv4_unicast_count\<close>
  and \<^verbatim>\<open>verify_bgp_evpn_count\<close> both report success; \<^verbatim>\<open>verify_bgp_rtc_count\<close> reports failure.
\<close>

theorem count_matches_peer_idle:
  "snd (verify_bgp_ipv4_unicast_count
          (answering (bgp_summary [(''default'', [(''10.0.0.1'', peer ''Idle'' 0 0)])]))
          (Some 1) (Some ''default''))
     = Inr \<lparr>host = ''leaf1'', test = ''verify_bgp_ipv4_unicast_count'', result = success,
            messages = [], history = [success]\<rparr>
   \<and> snd (verify_bgp_evpn_count
          (answering (bgp_summary [(''default'', [(''10.0.0.1'', peer ''Idle'' 0 0)])]))
          (Some 1))
     = Inr \<lparr>host = ''leaf1'', test = ''verify_bgp_evpn_count'', result = success,
            messages = [], history = [success]\<rparr>
   \<and> snd (verify_bgp_rtc_count
          (answering (bgp_summary [(''default'', [(''10.0.0.1'', peer ''Idle'' 0 0)])]))
          (Some 1))
     = Inr \<lparr>host = ''leaf1'', test = ''verify_bgp_rtc_count'', result = failure,
            messages = [], history = [failure]\<rparr>"
  by code_simp

text \<open>
  C6. Three peers expected. Three healthy peers give success, and two healthy peers give
  failure with the message that 3 were expected and 2 were got; but two peers of which one
  is Idle give success, where the claim says failure.
\<close>

theorem expecting_three_peers:
  "snd (verify_bgp_ipv4_unicast_count
          (answering (bgp_summary [(''default'',
             [(''10.0.0.1'', peer ''Established'' 0 0), (''10.0.0.2'', peer ''Established'' 0 0),
              (''10.0.0.3'', peer ''Established'' 0 0)])]))
          (Some 3) (Some ''default''))
     = Inr \<lparr>host = ''leaf1'', test = ''verify_bgp_ipv4_unicast_count'', result = success,
            messages = [], history = [success]\<rparr>
   \<and> snd (verify_bgp_ipv4_unicast_count
          (answering (bgp_summary [(''default'',
             [(''10.0.0.1'', peer ''Established'' 0 0), (''10.0.0.2'', peer ''Established'' 0 0)])]))
          (Some 3) (Some ''default''))
     = Inr \<lparr>host = ''leaf1'', test = ''verify_bgp_ipv4_unicast_count'', result = failure,
            messages = [''Expecting 3 BGP peer in vrf default and got 2''],
            history = [failure]\<rparr>
   \<and> snd (verify_bgp_ipv4_unicast_count
          (answering (bgp_summary [(''default'',
             [(''10.0.0.1'', peer ''Established'' 0 0), (''10.0.0.2'', peer ''Idle'' 0 0)])]))
          (Some 3) (Some ''default''))
     = Inr \<lparr>host = ''leaf1'', test = ''verify_bgp_ipv4_unicast_count'', result = success,
            messages = [], history = [success]\<rparr>"
  by code_simp

subsection \<open>A verdict for every output\<close>

text \<open>
  C5. Verification is to end with success or failure whenever the output is well formed.
  The code leaves the status unset in two places: \<^verbatim>\<open>verify_vxlan\<close> for an interface that is
  not up/up (it appends the message and does not call \<^verbatim>\<open>is_failure\<close>), and
  \<^verbatim>\<open>VerifyRunningConfigDiffs.test\<close> for an output that is a list with a line in it.
\<close>

theorem status_left_unset:
  "snd (verify_vxlan (answering (vxlan_description
          [(''lineProtocolStatus'', ''down''), (''intefraceStatus'', ''down'')])))
     = Inr \<lparr>host = ''leaf1'', test = ''verify_vxlan'', result = unset,
            messages = [''Vxlan interface is down/down.''], history = []\<rparr>
   \<and> VerifyRunningConfigDiffs_test
        [\<lparr>command = ''show running-config diffs'', ofmt = ''text'',
          output = PList [PStr ''+hostname leaf1'']\<rparr>]
        (new_result ''leaf1'' ''verify_running_config_diffs'')
     = (\<lparr>host = ''leaf1'', test = ''verify_running_config_diffs'', result = unset,
         messages = [], history = []\<rparr>, None)"
  by code_simp

subsection \<open>A transport timeout\<close>

text \<open>
  C8. A timeout of the transport is to end in an error result. In the checks of
  \<^verbatim>\<open>software.py\<close> it does not: their handler names \<^verbatim>\<open>AppError\<close> and \<^verbatim>\<open>KeyError\<close> only, and the
  timeout leaves the check as an exception.
\<close>

theorem timeout_leaves_software_checks:
  "verify_eos_version (raising (SocketTimeout ''timed out'')) (Some [''4.27.0F''])
     = ([[''show version'']], Inl (SocketTimeout ''timed out''))
   \<and> verify_terminattr_version (raising (SocketTimeout ''timed out'')) (Some [''v1.17.0''])
     = ([[''show version detail'']], Inl (SocketTimeout ''timed out''))
   \<and> verify_field_notice_44_resolution (raising (SocketTimeout ''timed out''))
     = ([[''show version detail'']], Inl (SocketTimeout ''timed out''))
   \<and> verify_eos_extensions (raising (SocketTimeout ''timed out''))
     = ([[''show extensions'', ''show boot-extensions'']], Inl (SocketTimeout ''timed out''))
   \<and> verify_bgp_ipv4_unicast_state (raising (SocketTimeout ''timed out''))
     = ([[''show bgp ipv4 unicast summary vrf all'']],
        Inr \<lparr>host = ''leaf1'', test = ''verify_bgp_ipv4_unicast_state'', result = error,
             messages = [''timed out''], history = [error]\<rparr>)"
  by code_simp

subsection \<open>A required parameter that is absent\<close>

text \<open>
  C4, as it fails. Called without its versions, \<^verbatim>\<open>verify_eos_version\<close> writes \<open>unset\<close>, not
  \<open>skipped\<close>, to the status of the result it returns.
\<close>

theorem version_check_without_versions:
  "verify_eos_version (answering []) None
     = ([], Inr \<lparr>host = ''leaf1'', test = ''verify_eos_version'', result = unset,
                 messages = [''verify_eos_version was not run as no versions were givem''],
                 history = [unset]\<rparr>)
   \<and> unset \<noteq> skipped"
  by code_simp

text \<open>
  C4, amended. A check called without the parameter it requires returns a result with a
  message that says so, and sends no command of its own. In the counting checks of
  \<^verbatim>\<open>bgp.py\<close> called without a number the decorator runs first: when it lets the call
  through, the status is \<open>skipped\<close> and the commands sent are the decorator's alone. In
  \<^verbatim>\<open>verify_eos_version\<close> and \<^verbatim>\<open>verify_terminattr_version\<close> called without versions the status
  is \<open>unset\<close> and no command is sent at all.
\<close>

theorem absent_parameter:
  "check_bgp_family_enable guard ''ipv4''
       (\<lambda>device. verify_bgp_ipv4_unicast_count device None vrf) device
     = (case guard ''ipv4'' device of
          Stop sent outcome \<Rightarrow> (sent, outcome)
        | Proceed sent \<Rightarrow>
            (sent, Inr \<lparr>host = device_host device, test = ''verify_bgp_ipv4_unicast_count'',
                 result = skipped,
                 messages = [''verify_bgp_ipv4_unicast_count could not run because number of vrf was not supplied''],
                 history = [skipped]\<rparr>))
   \<and> check_bgp_family_enable guard ''evpn''
       (\<lambda>device. verify_bgp_evpn_count device None) device
     = (case guard ''evpn'' device of
          Stop sent outcome \<Rightarrow> (sent, outcome)
        | Proceed sent \<Rightarrow>
            (sent, Inr \<lparr>host = device_host device, test = ''verify_bgp_evpn_count'',
                 result = skipped,
                 messages = [''verify_bgp_evpn_count could not run because number was not supplied.''],
                 history = [skipped]\<rparr>))
   \<and> check_bgp_family_enable guard ''rtc''
       (\<lambda>device. verify_bgp_rtc_count device None) device
     = (case guard ''rtc'' device of
          Stop sent outcome \<Rightarrow> (sent, outcome)
        | Proceed sent \<Rightarrow>
            (sent, Inr \<lparr>host = device_host device, test = ''verify_bgp_rtc_count'',
                 result = skipped,
                 messages = [''verify_bgp_rtc_count could not run because number was not supplied''],
                 history = [skipped]\<rparr>))
   \<and> verify_eos_version device None
     = ([], Inr \<lparr>host = device_host device, test = ''verify_eos_version'',
                 result = unset,
                 messages = [''verify_eos_version was not run as no versions were givem''],
                 history = [unset]\<rparr>)
   \<and> verify_terminattr_version device None
     = ([], Inr \<lparr>host = device_host device, test = ''verify_terminattr_version'',
                 result = unset,
                 messages = [''verify_terminattr_version was not run as no versions were givem''],
                 history = [unset]\<rparr>)"
  by (simp add: check_bgp_family_enable_def verify_bgp_ipv4_unicast_count_def
      verify_bgp_evpn_count_def verify_bgp_rtc_count_def verify_eos_version_def
      verify_terminattr_version_def not_number_def not_given_def result_writes Let_def
      split: precheck.splits)

subsection \<open>The misspelt key of \<^verbatim>\<open>verify_vxlan\<close>\<close>

text \<open>
  C9. \<^verbatim>\<open>verify_vxlan\<close> reads the key \<^verbatim>\<open>intefraceStatus\<close>. When the entry of Vxlan1 has
  \<^verbatim>\<open>lineProtocolStatus\<close> and \<^verbatim>\<open>interfaceStatus\<close> and no key spelt \<^verbatim>\<open>intefraceStatus\<close>, the
  lookup raises \<^verbatim>\<open>KeyError\<close>, the handler catches it, and the result is error with the
  message \<^verbatim>\<open>'intefraceStatus'\<close>, whatever the two statuses are; so never success.
\<close>

theorem vxlan_misspelt_key:
  assumes "session device [''show interfaces description''] = Inr (PDict answer # others)"
    and "map_of answer (PStr ''interfaceDescriptions'') = Some (PDict descriptions)"
    and "map_of descriptions (PStr ''Vxlan1'') = Some (PDict vxlan1)"
    and "map_of vxlan1 (PStr ''lineProtocolStatus'') = Some protocol_status"
    and "map_of vxlan1 (PStr ''interfaceStatus'') = Some interface_status"
    and "map_of vxlan1 (PStr ''intefraceStatus'') = None"
  shows "verify_vxlan device
     = ([[''show interfaces description'']],
        Inr \<lparr>host = device_host device, test = ''verify_vxlan'', result = error,
             messages = [[CHR 0x27] @ ''intefraceStatus'' @ [CHR 0x27]], history = [error]\<rparr>)"
  using assms
  by (simp add: verify_vxlan_def runCmds_def getitem_dict py_contains_dict except_bgp_def
      result_writes repr_str_def repr_char_def printable_def Let_def
      del: py_contains.simps)

theorem vxlan_misspelt_key_witness:
  "verify_vxlan (answering (vxlan_description
       [(''lineProtocolStatus'', ''up''), (''interfaceStatus'', ''up'')]))
     = ([[''show interfaces description'']],
        Inr \<lparr>host = ''leaf1'', test = ''verify_vxlan'', result = error,
             messages = [[CHR 0x27] @ ''intefraceStatus'' @ [CHR 0x27]], history = [error]\<rparr>)"
  using vxlan_misspelt_key [of
      "answering (vxlan_description
         [(''lineProtocolStatus'', ''up''), (''interfaceStatus'', ''up'')])"
      "[(PStr ''interfaceDescriptions'',
         PDict [(PStr ''Vxlan1'',
           PDict [(PStr ''lineProtocolStatus'', PStr ''up''),
                  (PStr ''interfaceStatus'', PStr ''up'')])])]"
      "[]"
      "[(PStr ''Vxlan1'',
         PDict [(PStr ''lineProtocolStatus'', PStr ''up''),
                (PStr ''interfaceStatus'', PStr ''up'')])]"
      "[(PStr ''lineProtocolStatus'', PStr ''up''), (PStr ''interfaceStatus'', PStr ''up'')]"
      "PStr ''up''" "PStr ''up''"]
  by (simp add: answering_def vxlan_description_def)

subsection \<open>The state check names the peer that is down\<close>



subsection \<open>Failures the handlers turn into results\<close>




subsection \<open>The moves of the status\<close>




end
